theory Spec2Isabelle
  imports Main "HOL-Library.Word"
begin

section \<open>Errors\<close>

text \<open>
  A Go \<open>error\<close> value. \<open>Cause\<close> is an error produced by a collaborator (the operating
  system, the registry, the OCI runtime), \<open>StatusError\<close> is a Kubernetes API status
  error with its HTTP code, and \<open>Wrapped m e\<close> is the result of \<open>errors.Wrap(e, m)\<close>.
  A nil error is \<open>None\<close> of \<open>error option\<close>.
\<close>

datatype error = Cause string | StatusError nat string | Wrapped string error

text \<open>
  \<open>errors.Wrap\<close> of crossplane-runtime: wrapping nil gives nil (the last line of
  \<open>Command.Run\<close> relies on it), wrapping an error prefixes the message.
\<close>

fun Wrap :: "error option \<Rightarrow> string \<Rightarrow> error option" where
  "Wrap None message = None"
| "Wrap (Some err) message = Some (Wrapped message err)"

section \<open>cmd/xfn/spark/spark.go\<close>

subsection \<open>Constants\<close>

definition errReadRequest :: string where "errReadRequest = ''cannot read request from stdin''"
definition errUnmarshalRequest :: string where "errUnmarshalRequest = ''cannot unmarshal request data from stdin''"
definition errNewBundleStore :: string where "errNewBundleStore = ''cannot create OCI runtime bundle store''"
definition errNewDigestStore :: string where "errNewDigestStore = ''cannot create OCI image digest store''"
definition errParseRef :: string where "errParseRef = ''cannot parse OCI image reference''"
definition errPull :: string where "errPull = ''cannot pull OCI image''"
definition errBundleFn :: string where "errBundleFn = ''cannot create OCI runtime bundle''"
definition errMkRuntimeRootdir :: string where "errMkRuntimeRootdir = ''cannot make OCI runtime cache''"
definition errRuntime :: string where "errRuntime = ''OCI runtime error''"
definition errCleanupBundle :: string where "errCleanupBundle = ''cannot cleanup OCI runtime bundle''"
definition errMarshalResponse :: string where "errMarshalResponse = ''cannot marshal response data to stdout''"
definition errWriteResponse :: string where "errWriteResponse = ''cannot write response data to stdout''"

definition ociRuntimeRoot :: string where "ociRuntimeRoot = ''runtime''"

text \<open>\<open>time.Duration\<close> is a signed 64-bit count of nanoseconds.\<close>

type_synonym Duration = "64 word"

definition Second :: Duration where "Second = 1000000000"

definition defaultTimeout :: Duration where "defaultTimeout = 25 * Second"

subsection \<open>Data\<close>

type_synonym bytes = "8 word list"

text \<open>The well-known protobuf duration: signed seconds and signed nanoseconds.\<close>

record pbDuration =
  Seconds :: "64 word"
  Nanos :: "32 word"

record RunFunctionConfig =
  Timeout :: "pbDuration option"

type_synonym ImagePullConfig = string

record RunFunctionRequest =
  Image :: string
  Input :: bytes
  ImagePullConfig :: "ImagePullConfig option"
  RunFunctionConfig :: "RunFunctionConfig option"

record RunFunctionResponse =
  Output :: bytes

record Command =
  CacheDir :: string
  Runtime :: string

text \<open>A \<open>context.Context\<close> is \<open>context.Background()\<close> with a timeout.\<close>

record Context =
  timeout :: Duration

definition WithTimeout :: "Duration \<Rightarrow> Context" where
  "WithTimeout t = \<lparr>timeout = t\<rparr>"

text \<open>The two implementations of \<open>store.Bundler\<close>, each over a cache directory.\<close>

datatype Bundler = UncompressedBundler string | CachingBundler string

record Bundle =
  Path :: string

type_synonym OCIImage = string
type_synonym OCIReference = string
type_synonym DigestStore = string

text \<open>What the child process of \<open>cmd.Output()\<close> did: its two output streams and the error.\<close>

record ChildResult =
  child_stdout :: bytes
  child_stderr :: bytes
  child_err :: "error option"

subsection \<open>Generated getters and \<open>AsDuration\<close>\<close>

text \<open>
  The getters of a protobuf message accept a nil receiver and return the zero value,
  so the chain \<open>req.GetRunFunctionConfig().GetTimeout().AsDuration()\<close> is total.
\<close>

definition GetTimeout :: "RunFunctionConfig option \<Rightarrow> pbDuration option" where
  "GetTimeout x = (case x of None \<Rightarrow> None | Some cfg \<Rightarrow> Timeout cfg)"

definition GetSeconds :: "pbDuration option \<Rightarrow> 64 word" where
  "GetSeconds x = (case x of None \<Rightarrow> 0 | Some d \<Rightarrow> Seconds d)"

definition GetNanos :: "pbDuration option \<Rightarrow> 32 word" where
  "GetNanos x = (case x of None \<Rightarrow> 0 | Some d \<Rightarrow> Nanos d)"

text \<open>Go's integer division truncates towards zero.\<close>

definition trunc_div :: "int \<Rightarrow> int \<Rightarrow> int" where
  "trunc_div a b = sgn a * sgn b * (\<bar>a\<bar> div \<bar>b\<bar>)"

text \<open>
  \<open>durationpb.Duration.AsDuration\<close>: seconds times \<open>time.Second\<close> plus nanoseconds in
  wrapping 64-bit arithmetic, saturated to the closest duration on overflow.
\<close>

definition AsDuration :: "pbDuration option \<Rightarrow> Duration" where
  "AsDuration x =
    (let secs = GetSeconds x;
         nanos = GetNanos x;
         d0 = secs * Second;
         overflow0 = (word_of_int (trunc_div (sint d0) (sint Second)) \<noteq> secs);
         d = d0 + scast nanos;
         overflow = (overflow0
                     \<or> (sint secs < 0 \<and> sint nanos < 0 \<and> sint d > 0)
                     \<or> (sint secs > 0 \<and> sint nanos > 0 \<and> sint d < 0))
     in if overflow \<and> sint secs < 0 then word_of_int (- (2 ^ 63))
        else if overflow \<and> sint secs > 0 then word_of_int (2 ^ 63 - 1)
        else d)"

subsection \<open>\<open>filepath.Join\<close>\<close>

text \<open>
  \<open>filepath.Join\<close> on Unix: the first empty elements are dropped, the rest is joined
  with \<open>/\<close> and the result is cleaned (\<open>filepath.Clean\<close>): repeated separators and
  \<open>.\<close> elements go, an inner \<open>..\<close> removes the element before it, a \<open>..\<close> at the
  root goes, and the empty path becomes \<open>.\<close>.
\<close>

fun split_sep :: "string \<Rightarrow> string \<Rightarrow> string list" where
  "split_sep acc [] = [rev acc]"
| "split_sep acc (ch # cs) =
     (if ch = CHR ''/'' then rev acc # split_sep [] cs else split_sep (ch # acc) cs)"

fun join_sep :: "string list \<Rightarrow> string" where
  "join_sep [] = []"
| "join_sep [x] = x"
| "join_sep (x # y # ys) = x @ ''/'' @ join_sep (y # ys)"

fun clean_elems :: "bool \<Rightarrow> string list \<Rightarrow> string list \<Rightarrow> string list" where
  "clean_elems rooted out [] = rev out"
| "clean_elems rooted out (e # es) =
     (if e = [] \<or> e = ''.'' then clean_elems rooted out es
      else if e = ''..'' then
        (case out of
           [] \<Rightarrow> if rooted then clean_elems rooted out es else clean_elems rooted [e] es
         | prev # below \<Rightarrow>
             if prev = ''..'' then clean_elems rooted (e # out) es
             else clean_elems rooted below es)
      else clean_elems rooted (e # out) es)"

definition Clean :: "string \<Rightarrow> string" where
  "Clean path =
    (if path = [] then ''.''
     else let rooted = (hd path = CHR ''/'');
              out = (if rooted then ''/'' else []) @ join_sep (clean_elems rooted [] (split_sep [] path))
          in if out = [] then ''.'' else out)"

definition filepath_Join :: "string list \<Rightarrow> string" where
  "filepath_Join elem =
    (let rest = dropWhile (\<lambda>e. e = []) elem
     in if rest = [] then [] else Clean (join_sep rest))"

subsection \<open>The collaborators of \<open>Command.Run\<close>\<close>

text \<open>
  Everything \<open>Command.Run\<close> calls outside its own body: the standard streams, the
  protobuf codec, the OCI stores, puller and bundlers of \<open>internal/oci\<close>, the file
  system and the external OCI runtime. Each field gives the outcome of one call as
  a function of the arguments the call receives.
\<close>

record world =
  stdin_ReadAll :: "error + bytes"
  proto_Unmarshal :: "bytes \<Rightarrow> error + RunFunctionRequest"
  uuid_NewString :: string
  overlay_Supported :: "string \<Rightarrow> bool"
  overlay_NewCachingBundler :: "string \<Rightarrow> error option"
  store_NewDigest :: "string \<Rightarrow> error + DigestStore"
  name_ParseReference :: "string \<Rightarrow> error + OCIReference"
  puller_Image :: "DigestStore \<Rightarrow> string \<Rightarrow> Context \<Rightarrow> OCIReference \<Rightarrow> ImagePullConfig option
                   \<Rightarrow> error + OCIImage"
  bundler_Bundle :: "Bundler \<Rightarrow> Context \<Rightarrow> OCIImage \<Rightarrow> string \<Rightarrow> error + Bundle"
  os_MkdirAll :: "string \<Rightarrow> nat \<Rightarrow> error option"
  cmd_run :: "Context \<Rightarrow> string \<Rightarrow> string list \<Rightarrow> bytes \<Rightarrow> ChildResult"
  bundle_Cleanup :: "Bundle \<Rightarrow> error option"
  proto_Marshal :: "RunFunctionResponse \<Rightarrow> error + bytes"
  stdout_Write :: "bytes \<Rightarrow> nat \<times> error option"

text \<open>
  The observable behaviour of one run: the calls made, in order, each with the
  arguments it received and the error it returned (\<open>None\<close> for nil).
  \<open>StdoutWrite\<close> carries the bytes that reached standard output.
\<close>

datatype event =
    EvReadAll "error option"
  | EvUnmarshal bytes "error option"
  | EvOverlaySupported string bool
  | EvNewCachingBundler string "error option"
  | EvNewDigest string "error option"
  | EvParseReference string "error option"
  | EvPullImage Context OCIReference "ImagePullConfig option" "error option"
  | EvBundle Bundler Context OCIImage string "error option"
  | EvMkdirAll string nat "error option"
  | EvCommandOutput Context string "string list" bytes "error option"
  | EvCleanup Bundle "error option"
  | EvMarshal RunFunctionResponse "error option"
  | EvStdoutWrite bytes "error option"

definition err_of :: "error + 'a \<Rightarrow> error option" where
  "err_of r = (case r of Inl e \<Rightarrow> Some e | Inr v \<Rightarrow> None)"

text \<open>\<open>cmd.Output()\<close> returns the child's standard output and the error.\<close>

definition cmd_Output :: "ChildResult \<Rightarrow> bytes \<times> error option" where
  "cmd_Output r = (child_stdout r, child_err r)"

subsection \<open>\<open>Command.Run\<close>\<close>

text \<open>
  \<open>Command.Run\<close>, statement by statement. The result is the returned error and the
  trace of calls made before the return.
\<close>

definition Command_Run :: "world \<Rightarrow> Command \<Rightarrow> error option \<times> event list" where
  "Command_Run w c =
    (case stdin_ReadAll w of
       Inl err \<Rightarrow> (Wrap (Some err) errReadRequest, [EvReadAll (Some err)])
     | Inr pb \<Rightarrow>
    (let tr = [EvReadAll None] in
     case proto_Unmarshal w pb of
       Inl err \<Rightarrow> (Wrap (Some err) errUnmarshalRequest, tr @ [EvUnmarshal pb (Some err)])
     | Inr req \<Rightarrow>
    (let tr = tr @ [EvUnmarshal pb None];
         t = AsDuration (GetTimeout (RunFunctionConfig req));
         t = (if t = 0 then defaultTimeout else t);
         ctx = WithTimeout t;
         runID = uuid_NewString w;
         supported = overlay_Supported w (CacheDir c);
         tr = tr @ [EvOverlaySupported (CacheDir c) supported];
         (s, err, tr) =
           (if supported
            then (CachingBundler (CacheDir c), overlay_NewCachingBundler w (CacheDir c),
                  tr @ [EvNewCachingBundler (CacheDir c) (overlay_NewCachingBundler w (CacheDir c))])
            else (UncompressedBundler (CacheDir c), None, tr))
     in
     case err of
       Some err \<Rightarrow> (Wrap (Some err) errNewBundleStore, tr)
     | None \<Rightarrow>
    (let tr = tr @ [EvNewDigest (CacheDir c) (err_of (store_NewDigest w (CacheDir c)))] in
     case store_NewDigest w (CacheDir c) of
       Inl err \<Rightarrow> (Wrap (Some err) errNewDigestStore, tr)
     | Inr h \<Rightarrow>
    (let tr = tr @ [EvParseReference (Image req) (err_of (name_ParseReference w (Image req)))] in
     case name_ParseReference w (Image req) of
       Inl err \<Rightarrow> (Wrap (Some err) errParseRef, tr)
     | Inr r \<Rightarrow>
    (let img = puller_Image w h (CacheDir c) ctx r (ImagePullConfig req);
         tr = tr @ [EvPullImage ctx r (ImagePullConfig req) (err_of img)] in
     case img of
       Inl err \<Rightarrow> (Wrap (Some err) errPull, tr)
     | Inr img \<Rightarrow>
    (let b = bundler_Bundle w s ctx img runID;
         tr = tr @ [EvBundle s ctx img runID (err_of b)] in
     case b of
       Inl err \<Rightarrow> (Wrap (Some err) errBundleFn, tr)
     | Inr b \<Rightarrow>
    (let root = filepath_Join [CacheDir c, ociRuntimeRoot];
         tr = tr @ [EvMkdirAll root 448 (os_MkdirAll w root 448)] in
     case os_MkdirAll w root 448 of
       Some err \<Rightarrow>
         (Wrap (Some err) errMkRuntimeRootdir, tr @ [EvCleanup b (bundle_Cleanup w b)])
     | None \<Rightarrow>
    (let args = [''--root='' @ root, ''run'', ''--bundle='' @ Path b, runID];
         stdin = Input req;
         (out, err) = cmd_Output (cmd_run w ctx (Runtime c) args stdin);
         tr = tr @ [EvCommandOutput ctx (Runtime c) args stdin err] in
     case err of
       Some err \<Rightarrow> (Wrap (Some err) errRuntime, tr @ [EvCleanup b (bundle_Cleanup w b)])
     | None \<Rightarrow>
    (let tr = tr @ [EvCleanup b (bundle_Cleanup w b)] in
     case bundle_Cleanup w b of
       Some err \<Rightarrow> (Wrap (Some err) errCleanupBundle, tr)
     | None \<Rightarrow>
    (let rsp = \<lparr>Output = out\<rparr>;
         tr = tr @ [EvMarshal rsp (err_of (proto_Marshal w rsp))] in
     case proto_Marshal w rsp of
       Inl err \<Rightarrow> (Wrap (Some err) errMarshalResponse, tr)
     | Inr pb \<Rightarrow>
    (let (n, err) = stdout_Write w pb
     in (Wrap err errWriteResponse, tr @ [EvStdoutWrite (take n pb) err])))))))))))))"

subsection \<open>Reading a trace\<close>

text \<open>The step of the pipeline an event belongs to, and the error the call returned.\<close>

datatype step = ReadRequest | DecodeRequest | ProbeOverlay | NewOverlayBundler | NewDigestStore
  | ParseRef | PullImage | BundleFn | MkRuntimeRoot | Execute | CleanupBundle
  | MarshalResponse | WriteResponse

fun step_of :: "event \<Rightarrow> step" where
  "step_of (EvReadAll r) = ReadRequest"
| "step_of (EvUnmarshal pb r) = DecodeRequest"
| "step_of (EvOverlaySupported d b) = ProbeOverlay"
| "step_of (EvNewCachingBundler d r) = NewOverlayBundler"
| "step_of (EvNewDigest d r) = NewDigestStore"
| "step_of (EvParseReference i r) = ParseRef"
| "step_of (EvPullImage ctx ref cfg r) = PullImage"
| "step_of (EvBundle s ctx img rid r) = BundleFn"
| "step_of (EvMkdirAll p m r) = MkRuntimeRoot"
| "step_of (EvCommandOutput ctx rt args inp r) = Execute"
| "step_of (EvCleanup b r) = CleanupBundle"
| "step_of (EvMarshal rsp r) = MarshalResponse"
| "step_of (EvStdoutWrite bs r) = WriteResponse"

fun failure :: "event \<Rightarrow> error option" where
  "failure (EvReadAll r) = r"
| "failure (EvUnmarshal pb r) = r"
| "failure (EvOverlaySupported d b) = None"
| "failure (EvNewCachingBundler d r) = r"
| "failure (EvNewDigest d r) = r"
| "failure (EvParseReference i r) = r"
| "failure (EvPullImage ctx ref cfg r) = r"
| "failure (EvBundle s ctx img rid r) = r"
| "failure (EvMkdirAll p m r) = r"
| "failure (EvCommandOutput ctx rt args inp r) = r"
| "failure (EvCleanup b r) = r"
| "failure (EvMarshal rsp r) = r"
| "failure (EvStdoutWrite bs r) = r"

fun written :: "event \<Rightarrow> bytes" where
  "written (EvStdoutWrite bs r) = bs"
| "written ev = []"

definition stdout_of :: "event list \<Rightarrow> bytes" where
  "stdout_of tr = concat (map written tr)"

fun ctx_of :: "event \<Rightarrow> Context option" where
  "ctx_of (EvPullImage ctx ref cfg r) = Some ctx"
| "ctx_of (EvBundle s ctx img rid r) = Some ctx"
| "ctx_of (EvCommandOutput ctx rt args inp r) = Some ctx"
| "ctx_of ev = None"

definition calls :: "step \<Rightarrow> event list \<Rightarrow> event list" where
  "calls st tr = filter (\<lambda>ev. step_of ev = st) tr"

text \<open>
  The steps of the pipeline up to and including the execution of the OCI runtime:
  reading and decoding the request, constructing the overlay bundler, creating the
  digest store, parsing the reference, pulling, bundling, creating the runtime root
  and running the OCI runtime.
\<close>

definition setup_steps :: "step set" where
  "setup_steps = {ReadRequest, DecodeRequest, NewOverlayBundler, NewDigestStore, ParseRef,
     PullImage, BundleFn, MkRuntimeRoot, Execute}"

text \<open>
  The context built at lines 87 to 91 for a decoded request, and the argument list
  built at line 143 for a bundle and a run identifier.
\<close>

definition run_ctx :: "RunFunctionRequest \<Rightarrow> Context" where
  "run_ctx req =
     (let t = AsDuration (GetTimeout (RunFunctionConfig req))
      in WithTimeout (if t = 0 then defaultTimeout else t))"

definition run_args :: "Command \<Rightarrow> Bundle \<Rightarrow> string \<Rightarrow> string list" where
  "run_args c b runID =
     [''--root='' @ filepath_Join [CacheDir c, ociRuntimeRoot], ''run'', ''--bundle='' @ Path b, runID]"

subsection \<open>Example runs\<close>

definition example_request :: RunFunctionRequest where
  "example_request =
     \<lparr>Image = ''registry.example/fn:v1'', Input = [123, 125], ImagePullConfig = None,
      RunFunctionConfig = Some \<lparr>Timeout = Some \<lparr>Seconds = 5, Nanos = 0\<rparr>\<rparr>\<rparr>"

text \<open>A host on which every step succeeds and the function echoes its input.\<close>

definition example_world :: world where
  "example_world =
     \<lparr>stdin_ReadAll = Inr [10, 22],
      proto_Unmarshal = (\<lambda>pb. Inr example_request),
      uuid_NewString = ''run-1'',
      overlay_Supported = (\<lambda>d. True),
      overlay_NewCachingBundler = (\<lambda>d. None),
      store_NewDigest = (\<lambda>d. Inr d),
      name_ParseReference = (\<lambda>s. Inr s),
      puller_Image = (\<lambda>h d ctx r cfg. Inr r),
      bundler_Bundle = (\<lambda>s ctx img rid. Inr \<lparr>Path = ''/xfn/bundle/'' @ rid\<rparr>),
      os_MkdirAll = (\<lambda>p m. None),
      cmd_run = (\<lambda>ctx rt args inp. \<lparr>child_stdout = inp, child_stderr = [7], child_err = None\<rparr>),
      bundle_Cleanup = (\<lambda>b. None),
      proto_Marshal = (\<lambda>rsp. Inr (10 # Output rsp)),
      stdout_Write = (\<lambda>bs. (length bs, None))\<rparr>"

text \<open>The same host, where the OCI runtime exits with an error and the cleanup fails too.\<close>

definition failing_world :: world where
  "failing_world =
     example_world
       \<lparr>cmd_run := (\<lambda>ctx rt args inp.
          \<lparr>child_stdout = [1], child_stderr = [7], child_err = Some (Cause ''exit status 1'')\<rparr>),
        bundle_Cleanup := (\<lambda>b. Some (Cause ''device busy''))\<rparr>"

definition example_command :: Command where
  "example_command = \<lparr>CacheDir = ''/xfn'', Runtime = ''crun''\<rparr>"

section \<open>Properties of \<open>Command.Run\<close>\<close>

subsection \<open>The paths through \<open>Command.Run\<close>\<close>

text \<open>
  Every run takes exactly one of twelve paths: it returns at one of the eleven
  early returns, or it reaches the write to standard output. Each case gives the
  outcomes of the calls made on the path, the returned error and the trace.
\<close>

lemma Command_Run_cases [case_names ReadRequest Unmarshal NewBundler NewDigest ParseRef Pull
    BundleFn MkRoot Runtime CleanupFail MarshalFail Written]:
  fixes w :: world and c :: Command
  defines "dir \<equiv> CacheDir c"
    and "ovl \<equiv> overlay_Supported w (CacheDir c)"
    and "root \<equiv> filepath_Join [CacheDir c, ociRuntimeRoot]"
    and "rid \<equiv> uuid_NewString w"
  defines "s \<equiv> (if ovl then CachingBundler dir else UncompressedBundler dir)"
    and "sel \<equiv> [EvOverlaySupported dir ovl] @ (if ovl then [EvNewCachingBundler dir None] else [])"
  obtains
    (ReadRequest) e where
      "stdin_ReadAll w = Inl e"
      "Command_Run w c = (Some (Wrapped errReadRequest e), [EvReadAll (Some e)])"
  | (Unmarshal) pb e where
      "stdin_ReadAll w = Inr pb" "proto_Unmarshal w pb = Inl e"
      "Command_Run w c =
         (Some (Wrapped errUnmarshalRequest e), [EvReadAll None, EvUnmarshal pb (Some e)])"
  | (NewBundler) pb req e where
      "stdin_ReadAll w = Inr pb" "proto_Unmarshal w pb = Inr req"
      "ovl" "overlay_NewCachingBundler w dir = Some e"
      "Command_Run w c =
         (Some (Wrapped errNewBundleStore e),
          [EvReadAll None, EvUnmarshal pb None, EvOverlaySupported dir True,
           EvNewCachingBundler dir (Some e)])"
  | (NewDigest) pb req e where
      "stdin_ReadAll w = Inr pb" "proto_Unmarshal w pb = Inr req"
      "ovl \<longrightarrow> overlay_NewCachingBundler w dir = None"
      "store_NewDigest w dir = Inl e"
      "Command_Run w c =
         (Some (Wrapped errNewDigestStore e),
          [EvReadAll None, EvUnmarshal pb None] @ sel @ [EvNewDigest dir (Some e)])"
  | (ParseRef) pb req h e where
      "stdin_ReadAll w = Inr pb" "proto_Unmarshal w pb = Inr req"
      "ovl \<longrightarrow> overlay_NewCachingBundler w dir = None"
      "store_NewDigest w dir = Inr h"
      "name_ParseReference w (Image req) = Inl e"
      "Command_Run w c =
         (Some (Wrapped errParseRef e),
          [EvReadAll None, EvUnmarshal pb None] @ sel @
          [EvNewDigest dir None, EvParseReference (Image req) (Some e)])"
  | (Pull) pb req h r e where
      "stdin_ReadAll w = Inr pb" "proto_Unmarshal w pb = Inr req"
      "ovl \<longrightarrow> overlay_NewCachingBundler w dir = None"
      "store_NewDigest w dir = Inr h"
      "name_ParseReference w (Image req) = Inr r"
      "puller_Image w h dir (run_ctx req) r (ImagePullConfig req) = Inl e"
      "Command_Run w c =
         (Some (Wrapped errPull e),
          [EvReadAll None, EvUnmarshal pb None] @ sel @
          [EvNewDigest dir None, EvParseReference (Image req) None,
           EvPullImage (run_ctx req) r (ImagePullConfig req) (Some e)])"
  | (BundleFn) pb req h r img e where
      "stdin_ReadAll w = Inr pb" "proto_Unmarshal w pb = Inr req"
      "ovl \<longrightarrow> overlay_NewCachingBundler w dir = None"
      "store_NewDigest w dir = Inr h"
      "name_ParseReference w (Image req) = Inr r"
      "puller_Image w h dir (run_ctx req) r (ImagePullConfig req) = Inr img"
      "bundler_Bundle w s (run_ctx req) img rid = Inl e"
      "Command_Run w c =
         (Some (Wrapped errBundleFn e),
          [EvReadAll None, EvUnmarshal pb None] @ sel @
          [EvNewDigest dir None, EvParseReference (Image req) None,
           EvPullImage (run_ctx req) r (ImagePullConfig req) None,
           EvBundle s (run_ctx req) img rid (Some e)])"
  | (MkRoot) pb req h r img b e where
      "stdin_ReadAll w = Inr pb" "proto_Unmarshal w pb = Inr req"
      "ovl \<longrightarrow> overlay_NewCachingBundler w dir = None"
      "store_NewDigest w dir = Inr h"
      "name_ParseReference w (Image req) = Inr r"
      "puller_Image w h dir (run_ctx req) r (ImagePullConfig req) = Inr img"
      "bundler_Bundle w s (run_ctx req) img rid = Inr b"
      "os_MkdirAll w root 448 = Some e"
      "Command_Run w c =
         (Some (Wrapped errMkRuntimeRootdir e),
          [EvReadAll None, EvUnmarshal pb None] @ sel @
          [EvNewDigest dir None, EvParseReference (Image req) None,
           EvPullImage (run_ctx req) r (ImagePullConfig req) None,
           EvBundle s (run_ctx req) img rid None,
           EvMkdirAll root 448 (Some e), EvCleanup b (bundle_Cleanup w b)])"
  | (Runtime) pb req h r img b e where
      "stdin_ReadAll w = Inr pb" "proto_Unmarshal w pb = Inr req"
      "ovl \<longrightarrow> overlay_NewCachingBundler w dir = None"
      "store_NewDigest w dir = Inr h"
      "name_ParseReference w (Image req) = Inr r"
      "puller_Image w h dir (run_ctx req) r (ImagePullConfig req) = Inr img"
      "bundler_Bundle w s (run_ctx req) img rid = Inr b"
      "os_MkdirAll w root 448 = None"
      "child_err (cmd_run w (run_ctx req) (Runtime c) (run_args c b rid) (Input req)) = Some e"
      "Command_Run w c =
         (Some (Wrapped errRuntime e),
          [EvReadAll None, EvUnmarshal pb None] @ sel @
          [EvNewDigest dir None, EvParseReference (Image req) None,
           EvPullImage (run_ctx req) r (ImagePullConfig req) None,
           EvBundle s (run_ctx req) img rid None,
           EvMkdirAll root 448 None,
           EvCommandOutput (run_ctx req) (Runtime c) (run_args c b rid) (Input req) (Some e),
           EvCleanup b (bundle_Cleanup w b)])"
  | (CleanupFail) pb req h r img b e where
      "stdin_ReadAll w = Inr pb" "proto_Unmarshal w pb = Inr req"
      "ovl \<longrightarrow> overlay_NewCachingBundler w dir = None"
      "store_NewDigest w dir = Inr h"
      "name_ParseReference w (Image req) = Inr r"
      "puller_Image w h dir (run_ctx req) r (ImagePullConfig req) = Inr img"
      "bundler_Bundle w s (run_ctx req) img rid = Inr b"
      "os_MkdirAll w root 448 = None"
      "child_err (cmd_run w (run_ctx req) (Runtime c) (run_args c b rid) (Input req)) = None"
      "bundle_Cleanup w b = Some e"
      "Command_Run w c =
         (Some (Wrapped errCleanupBundle e),
          [EvReadAll None, EvUnmarshal pb None] @ sel @
          [EvNewDigest dir None, EvParseReference (Image req) None,
           EvPullImage (run_ctx req) r (ImagePullConfig req) None,
           EvBundle s (run_ctx req) img rid None,
           EvMkdirAll root 448 None,
           EvCommandOutput (run_ctx req) (Runtime c) (run_args c b rid) (Input req) None,
           EvCleanup b (Some e)])"
  | (MarshalFail) pb req h r img b out e where
      "stdin_ReadAll w = Inr pb" "proto_Unmarshal w pb = Inr req"
      "ovl \<longrightarrow> overlay_NewCachingBundler w dir = None"
      "store_NewDigest w dir = Inr h"
      "name_ParseReference w (Image req) = Inr r"
      "puller_Image w h dir (run_ctx req) r (ImagePullConfig req) = Inr img"
      "bundler_Bundle w s (run_ctx req) img rid = Inr b"
      "os_MkdirAll w root 448 = None"
      "child_err (cmd_run w (run_ctx req) (Runtime c) (run_args c b rid) (Input req)) = None"
      "out = child_stdout (cmd_run w (run_ctx req) (Runtime c) (run_args c b rid) (Input req))"
      "bundle_Cleanup w b = None"
      "proto_Marshal w \<lparr>Output = out\<rparr> = Inl e"
      "Command_Run w c =
         (Some (Wrapped errMarshalResponse e),
          [EvReadAll None, EvUnmarshal pb None] @ sel @
          [EvNewDigest dir None, EvParseReference (Image req) None,
           EvPullImage (run_ctx req) r (ImagePullConfig req) None,
           EvBundle s (run_ctx req) img rid None,
           EvMkdirAll root 448 None,
           EvCommandOutput (run_ctx req) (Runtime c) (run_args c b rid) (Input req) None,
           EvCleanup b None, EvMarshal \<lparr>Output = out\<rparr> (Some e)])"
  | (Written) pb req h r img b out rpb n werr where
      "stdin_ReadAll w = Inr pb" "proto_Unmarshal w pb = Inr req"
      "ovl \<longrightarrow> overlay_NewCachingBundler w dir = None"
      "store_NewDigest w dir = Inr h"
      "name_ParseReference w (Image req) = Inr r"
      "puller_Image w h dir (run_ctx req) r (ImagePullConfig req) = Inr img"
      "bundler_Bundle w s (run_ctx req) img rid = Inr b"
      "os_MkdirAll w root 448 = None"
      "child_err (cmd_run w (run_ctx req) (Runtime c) (run_args c b rid) (Input req)) = None"
      "out = child_stdout (cmd_run w (run_ctx req) (Runtime c) (run_args c b rid) (Input req))"
      "bundle_Cleanup w b = None"
      "proto_Marshal w \<lparr>Output = out\<rparr> = Inr rpb"
      "stdout_Write w rpb = (n, werr)"
      "Command_Run w c =
         (Wrap werr errWriteResponse,
          [EvReadAll None, EvUnmarshal pb None] @ sel @
          [EvNewDigest dir None, EvParseReference (Image req) None,
           EvPullImage (run_ctx req) r (ImagePullConfig req) None,
           EvBundle s (run_ctx req) img rid None,
           EvMkdirAll root 448 None,
           EvCommandOutput (run_ctx req) (Runtime c) (run_args c b rid) (Input req) None,
           EvCleanup b None, EvMarshal \<lparr>Output = out\<rparr> None,
           EvStdoutWrite (take n rpb) werr])"
proof -
  note defs = Command_Run_def Let_def run_ctx_def run_args_def err_of_def cmd_Output_def
    dir_def ovl_def s_def sel_def root_def rid_def
  show thesis
  proof (cases "stdin_ReadAll w")
    case (Inl e)
    then show thesis using ReadRequest by (simp add: Command_Run_def)
  next
    case rd: (Inr pb)
    show thesis
    proof (cases "proto_Unmarshal w pb")
      case (Inl e)
      then show thesis using rd Unmarshal by (simp add: Command_Run_def)
    next
      case um: (Inr req)
      show thesis
      proof (cases "ovl \<and> overlay_NewCachingBundler w dir \<noteq> None")
        case True
        then obtain e where "ovl" "overlay_NewCachingBundler w dir = Some e" by auto
        then show thesis using rd um NewBundler [of pb req e]
          by (simp add: defs)
      next
        case False
        then have ok: "ovl \<longrightarrow> overlay_NewCachingBundler w dir = None" by auto
        show thesis
        proof (cases "store_NewDigest w dir")
          case (Inl e)
          then show thesis using rd um ok NewDigest [of pb req e]
            by (cases "overlay_Supported w (CacheDir c)") (simp_all add: defs)
        next
          case nd: (Inr h)
          show thesis
          proof (cases "name_ParseReference w (Image req)")
            case (Inl e)
            then show thesis using rd um ok nd ParseRef [of pb req h e]
              by (cases "overlay_Supported w (CacheDir c)") (simp_all add: defs)
          next
            case pr: (Inr r)
            show thesis
            proof (cases "puller_Image w h dir (run_ctx req) r (ImagePullConfig req)")
              case (Inl e)
              then show thesis using rd um ok nd pr Pull [of pb req h r e]
                by (cases "overlay_Supported w (CacheDir c)") (simp_all add: defs)
            next
              case pl: (Inr img)
              show thesis
              proof (cases "bundler_Bundle w s (run_ctx req) img rid")
                case (Inl e)
                then show thesis using rd um ok nd pr pl BundleFn [of pb req h r img e]
                  by (cases "overlay_Supported w (CacheDir c)") (simp_all add: defs)
              next
                case bn: (Inr b)
                show thesis
                proof (cases "os_MkdirAll w root 448")
                  case (Some e)
                  then show thesis using rd um ok nd pr pl bn MkRoot [of pb req h r img b e]
                    by (cases "overlay_Supported w (CacheDir c)") (simp_all add: defs)
                next
                  case mk: None
                  let ?child = "cmd_run w (run_ctx req) (Runtime c) (run_args c b rid) (Input req)"
                  show thesis
                  proof (cases "child_err ?child")
                    case (Some e)
                    then show thesis
                      using rd um ok nd pr pl bn mk Runtime [of pb req h r img b e]
                      by (cases "overlay_Supported w (CacheDir c)") (simp_all add: defs)
                  next
                    case ex: None
                    show thesis
                    proof (cases "bundle_Cleanup w b")
                      case (Some e)
                      then show thesis
                        using rd um ok nd pr pl bn mk ex CleanupFail [of pb req h r img b e]
                        by (cases "overlay_Supported w (CacheDir c)") (simp_all add: defs)
                    next
                      case cl: None
                      show thesis
                      proof (cases "proto_Marshal w \<lparr>Output = child_stdout ?child\<rparr>")
                        case (Inl e)
                        then show thesis
                          using rd um ok nd pr pl bn mk ex cl
                            MarshalFail [of pb req h r img b "child_stdout ?child" e]
                          by (cases "overlay_Supported w (CacheDir c)") (simp_all add: defs)
                      next
                        case ma: (Inr rpb)
                        obtain n werr where wr: "stdout_Write w rpb = (n, werr)"
                          by (cases "stdout_Write w rpb")
                        show thesis
                          using rd um ok nd pr pl bn mk ex cl ma wr
                            Written [of pb req h r img b "child_stdout ?child" rpb n werr]
                          by (cases "overlay_Supported w (CacheDir c)") (simp_all add: defs)
                      qed
                    qed
                  qed
                qed
              qed
            qed
          qed
        qed
      qed
    qed
  qed
qed

lemma five_seconds: "AsDuration (Some \<lparr>Seconds = 5, Nanos = 0\<rparr>) = 5000000000"
  by (simp add: AsDuration_def GetSeconds_def GetNanos_def Let_def trunc_div_def Second_def)

lemma example_root: "filepath_Join [''/xfn'', ociRuntimeRoot] = ''/xfn/runtime''"
  by (simp add: filepath_Join_def Clean_def ociRuntimeRoot_def Let_def)

lemma example_run:
  "Command_Run example_world example_command =
    (None,
     [EvReadAll None, EvUnmarshal [10, 22] None, EvOverlaySupported ''/xfn'' True,
      EvNewCachingBundler ''/xfn'' None, EvNewDigest ''/xfn'' None,
      EvParseReference ''registry.example/fn:v1'' None,
      EvPullImage \<lparr>timeout = 5000000000\<rparr> ''registry.example/fn:v1'' None None,
      EvBundle (CachingBundler ''/xfn'') \<lparr>timeout = 5000000000\<rparr>
        ''registry.example/fn:v1'' ''run-1'' None,
      EvMkdirAll ''/xfn/runtime'' 448 None,
      EvCommandOutput \<lparr>timeout = 5000000000\<rparr> ''crun''
        [''--root=/xfn/runtime'', ''run'', ''--bundle=/xfn/bundle/run-1'', ''run-1'']
        [123, 125] None,
      EvCleanup \<lparr>Path = ''/xfn/bundle/run-1''\<rparr> None,
      EvMarshal \<lparr>Output = [123, 125]\<rparr> None,
      EvStdoutWrite [10, 123, 125] None])"
  by (simp add: Command_Run_def example_world_def example_request_def Let_def GetTimeout_def
      five_seconds example_root WithTimeout_def err_of_def cmd_Output_def example_command_def)

lemma failing_run:
  "Command_Run failing_world example_command =
    (Some (Wrapped errRuntime (Cause ''exit status 1'')),
     [EvReadAll None, EvUnmarshal [10, 22] None, EvOverlaySupported ''/xfn'' True,
      EvNewCachingBundler ''/xfn'' None, EvNewDigest ''/xfn'' None,
      EvParseReference ''registry.example/fn:v1'' None,
      EvPullImage \<lparr>timeout = 5000000000\<rparr> ''registry.example/fn:v1'' None None,
      EvBundle (CachingBundler ''/xfn'') \<lparr>timeout = 5000000000\<rparr>
        ''registry.example/fn:v1'' ''run-1'' None,
      EvMkdirAll ''/xfn/runtime'' 448 None,
      EvCommandOutput \<lparr>timeout = 5000000000\<rparr> ''crun''
        [''--root=/xfn/runtime'', ''run'', ''--bundle=/xfn/bundle/run-1'', ''run-1'']
        [123, 125] (Some (Cause ''exit status 1'')),
      EvCleanup \<lparr>Path = ''/xfn/bundle/run-1''\<rparr> (Some (Cause ''device busy''))])"
  by (simp add: Command_Run_def failing_world_def example_world_def example_request_def Let_def
      GetTimeout_def five_seconds example_root WithTimeout_def err_of_def cmd_Output_def
      example_command_def)

subsection \<open>Cleanup of the bundle\<close>

text \<open>
  C1. Whenever a run created a Bundle (the call to \<open>Bundle\<close> returned no error), the
  trace of the run holds exactly one call of \<open>Cleanup\<close>, and it is the cleanup of
  that Bundle. The trace is complete when \<open>Run\<close> returns, so this holds on every
  exit path after bundling: failure to create the runtime root, failure of the OCI
  runtime, failure of the cleanup or of the response, and success.
\<close>

theorem cleanup_exactly_once:
  assumes "EvBundle s ctx img rid None \<in> set (snd (Command_Run w c))"
  shows "\<exists>b. bundler_Bundle w s ctx img rid = Inr b \<and>
             calls CleanupBundle (snd (Command_Run w c)) = [EvCleanup b (bundle_Cleanup w b)]"
  using assms
  by (cases rule: Command_Run_cases [of w c]) (auto simp: calls_def split: if_splits)

theorem cleanup_exactly_once_witness:
  "EvBundle (CachingBundler ''/xfn'') \<lparr>timeout = 5000000000\<rparr> ''registry.example/fn:v1''
       ''run-1'' None \<in> set (snd (Command_Run failing_world example_command))
   \<and> calls CleanupBundle (snd (Command_Run failing_world example_command))
       = [EvCleanup \<lparr>Path = ''/xfn/bundle/run-1''\<rparr> (Some (Cause ''device busy''))]"
  using cleanup_exactly_once [of "CachingBundler ''/xfn''" "\<lparr>timeout = 5000000000\<rparr>"
      "''registry.example/fn:v1''" "''run-1''" failing_world example_command]
  by (simp add: failing_run calls_def)

subsection \<open>No response after a failure\<close>

text \<open>
  C2. If any step up to the execution fails (reading or decoding the request,
  constructing the bundler, creating the digest store, parsing the reference,
  pulling, bundling, creating the runtime root, running the OCI runtime), \<open>Run\<close>
  returns an error and no byte reaches standard output. If any byte reached standard
  output, the write is the last call of the run and every call before it, one for
  each earlier step of the pipeline, returned no error.
\<close>

theorem no_response_after_failure:
  "((\<exists>ev \<in> set (snd (Command_Run w c)). step_of ev \<in> setup_steps \<and> failure ev \<noteq> None)
      \<longrightarrow> fst (Command_Run w c) \<noteq> None \<and> stdout_of (snd (Command_Run w c)) = [])
   \<and> (stdout_of (snd (Command_Run w c)) \<noteq> []
      \<longrightarrow> (\<exists>pre bs r. snd (Command_Run w c) = pre @ [EvStdoutWrite bs r]
            \<and> (\<forall>ev \<in> set pre. failure ev = None)
            \<and> {ReadRequest, DecodeRequest, ProbeOverlay, NewDigestStore, ParseRef, PullImage,
                BundleFn, MkRuntimeRoot, Execute, CleanupBundle, MarshalResponse}
                \<subseteq> step_of ` set pre))"
  by (cases rule: Command_Run_cases [of w c])
     (auto simp: stdout_of_def setup_steps_def split: if_splits)

theorem no_response_after_failure_witness:
  "(\<exists>ev \<in> set (snd (Command_Run failing_world example_command)).
       step_of ev \<in> setup_steps \<and> failure ev \<noteq> None)
   \<and> fst (Command_Run failing_world example_command) \<noteq> None
   \<and> stdout_of (snd (Command_Run failing_world example_command)) = []
   \<and> stdout_of (snd (Command_Run example_world example_command)) = [10, 123, 125]
   \<and> (\<exists>pre bs r. snd (Command_Run example_world example_command) = pre @ [EvStdoutWrite bs r]
        \<and> (\<forall>ev \<in> set pre. failure ev = None)
        \<and> {ReadRequest, DecodeRequest, ProbeOverlay, NewDigestStore, ParseRef, PullImage,
            BundleFn, MkRuntimeRoot, Execute, CleanupBundle, MarshalResponse}
            \<subseteq> step_of ` set pre)"
proof -
  have failed: "\<exists>ev \<in> set (snd (Command_Run failing_world example_command)).
      step_of ev \<in> setup_steps \<and> failure ev \<noteq> None"
    by (simp add: failing_run setup_steps_def)
  have out: "stdout_of (snd (Command_Run example_world example_command)) = [10, 123, 125]"
    by (simp add: example_run stdout_of_def)
  show ?thesis
    using failed out no_response_after_failure [of failing_world example_command]
      no_response_after_failure [of example_world example_command]
    by simp
qed

subsection \<open>The deadline\<close>

lemma AsDuration_nil: "AsDuration None = 0"
  by (simp add: AsDuration_def GetSeconds_def GetNanos_def Let_def trunc_div_def)

lemma defaultTimeout_sint: "sint defaultTimeout = 25 * 10 ^ 9"
  by (simp add: defaultTimeout_def Second_def)

lemma ctx_of_run:
  assumes "stdin_ReadAll w = Inr pb" and "proto_Unmarshal w pb = Inr req"
    and "ev \<in> set (snd (Command_Run w c))" and "ctx_of ev = Some ctx"
  shows "ctx = run_ctx req"
  using assms
  by (cases rule: Command_Run_cases [of w c]) (auto split: if_splits)

text \<open>
  C3. The context of any call that takes one (the pull, the bundling, the command of
  the OCI runtime) carries the timeout of the decoded request, as \<open>AsDuration\<close>
  converts it; when that is zero the timeout is \<open>defaultTimeout\<close>, and when the
  request has no timeout it is exactly 25 seconds (a \<open>time.Duration\<close> counts
  nanoseconds). Every such call of the run carries this same context.
\<close>

theorem single_deadline:
  assumes "stdin_ReadAll w = Inr pb" and "proto_Unmarshal w pb = Inr req"
    and "ev \<in> set (snd (Command_Run w c))" and "ctx_of ev = Some ctx"
  shows "(AsDuration (GetTimeout (RunFunctionConfig req)) \<noteq> 0
            \<longrightarrow> timeout ctx = AsDuration (GetTimeout (RunFunctionConfig req)))
       \<and> (AsDuration (GetTimeout (RunFunctionConfig req)) = 0
            \<longrightarrow> timeout ctx = defaultTimeout)
       \<and> (GetTimeout (RunFunctionConfig req) = None \<longrightarrow> sint (timeout ctx) = 25 * 10 ^ 9)
       \<and> (\<forall>ev' \<in> set (snd (Command_Run w c)). \<forall>ctx'. ctx_of ev' = Some ctx' \<longrightarrow> ctx' = ctx)"
proof -
  have ctx: "ctx = run_ctx req"
    using assms by (rule ctx_of_run)
  have same: "\<forall>ev' \<in> set (snd (Command_Run w c)). \<forall>ctx'. ctx_of ev' = Some ctx' \<longrightarrow> ctx' = ctx"
    using ctx ctx_of_run [OF assms(1,2)] by blast
  show ?thesis
    using same
    by (simp add: ctx run_ctx_def WithTimeout_def Let_def AsDuration_nil defaultTimeout_sint)
qed

end
